theory Spec2Isabelle
  imports Main "HOL-Library.Sublist" "HOL-Library.AList"
begin

section \<open>Python values used by the adapter\<close>

text \<open>
  Strings are \<^typ>\<open>string\<close>. \<open>str.lower()\<close> is modelled on the ASCII letters
  \<open>A\<close>..\<open>Z\<close>; every other character is left as it is. The adapter only asks whether
  a lowered string contains one of the ASCII words \<open>stream\<close>, \<open>live\<close> and \<open>realtime\<close>.
  Outside ASCII, Python lowers no character to a letter of these words except U+0130,
  which becomes \<open>i\<close> followed by a combining dot; in the words \<open>i\<close> is followed by
  \<open>v\<close> or \<open>m\<close>, so such an \<open>i\<close> completes no word and the answers are those of Python.
\<close>

definition lower_char :: "char \<Rightarrow> char" where
  "lower_char c =
     (case map_of (zip ''ABCDEFGHIJKLMNOPQRSTUVWXYZ'' ''abcdefghijklmnopqrstuvwxyz'') c of
        Some d \<Rightarrow> d
      | None \<Rightarrow> c)"

definition lower :: "string \<Rightarrow> string" where
  "lower s = map lower_char s"

text \<open>\<open>kw in s\<close> on strings: \<open>kw\<close> occurs in \<open>s\<close> as a contiguous substring.\<close>

fun contains :: "string \<Rightarrow> string \<Rightarrow> bool" where
  "contains kw [] = (kw = [])"
| "contains kw (c # cs) = (prefix kw (c # cs) \<or> contains kw cs)"

text \<open>\<open>s.startswith(p)\<close>.\<close>

definition startswith :: "string \<Rightarrow> string \<Rightarrow> bool" where
  "startswith s p = prefix p s"

text \<open>
  The values a JSON-like request dictionary holds. A dictionary is an association list
  in insertion order, keyed by strings. Floating-point values are not modelled.
\<close>

datatype pyval =
    PyNone
  | PyBool bool
  | PyInt int
  | PyStr string
  | PyList "pyval list"
  | PyDict "(string \<times> pyval) list"

type_synonym pydict = "(string \<times> pyval) list"

text \<open>Truth value of a Python object, as \<open>if x:\<close> reads it.\<close>

fun truthy :: "pyval \<Rightarrow> bool" where
  "truthy PyNone = False"
| "truthy (PyBool b) = b"
| "truthy (PyInt i) = (i \<noteq> 0)"
| "truthy (PyStr s) = (s \<noteq> [])"
| "truthy (PyList xs) = (xs \<noteq> [])"
| "truthy (PyDict kvs) = (kvs \<noteq> [])"

text \<open>\<open>d.get(k, default)\<close>, \<open>k in d\<close>, \<open>d[k] = v\<close> and \<open>d.update(other)\<close>.\<close>

definition dict_get :: "('k \<times> 'v) list \<Rightarrow> 'k \<Rightarrow> 'v \<Rightarrow> 'v" where
  "dict_get d k dflt = (case map_of d k of None \<Rightarrow> dflt | Some v \<Rightarrow> v)"

definition dict_has :: "('k \<times> 'v) list \<Rightarrow> 'k \<Rightarrow> bool" where
  "dict_has d k = (k \<in> set (map fst d))"

definition dict_update :: "('k \<times> 'v) list \<Rightarrow> ('k \<times> 'v) list \<Rightarrow> ('k \<times> 'v) list" where
  "dict_update d other = fold (\<lambda>(k, v). AList.update k v) other d"

subsection \<open>\<open>str()\<close> of a dictionary\<close>

fun dec_nat :: "nat \<Rightarrow> string" where
  "dec_nat n =
     (if n < 10 then [''0123456789'' ! n]
      else dec_nat (n div 10) @ [''0123456789'' ! (n mod 10)])"

declare dec_nat.simps [simp del]

fun join :: "string \<Rightarrow> string list \<Rightarrow> string" where
  "join sep [] = []"
| "join sep [x] = x"
| "join sep (x # y # ys) = x @ sep @ join sep (y # ys)"

text \<open>
  \<open>repr\<close> of a string: single quotes, unless the string holds a single quote and no
  double quote; the quote in use and the backslash are escaped with a backslash, tab,
  newline and carriage return as \<open>\t\<close>, \<open>\n\<close>, \<open>\r\<close>, the other control characters
  as \<open>\xNN\<close>. Characters from 0x80 on are kept (printable text outside ASCII).
\<close>

definition hex2 :: "nat \<Rightarrow> string" where
  "hex2 n = [''0123456789abcdef'' ! (n div 16), ''0123456789abcdef'' ! (n mod 16)]"

definition repr_char :: "char \<Rightarrow> char \<Rightarrow> string" where
  "repr_char q c =
     (if c = q \<or> c = CHR 0x5C then [CHR 0x5C, c]
      else if c = CHR 0x09 then [CHR 0x5C, CHR ''t'']
      else if c = CHR 0x0A then [CHR 0x5C, CHR ''n'']
      else if c = CHR 0x0D then [CHR 0x5C, CHR ''r'']
      else if (of_char c :: nat) < 32 \<or> c = CHR 0x7F then [CHR 0x5C, CHR ''x''] @ hex2 (of_char c)
      else [c])"

definition repr_str :: "string \<Rightarrow> string" where
  "repr_str s =
     (let q = (if CHR 0x27 \<in> set s \<and> CHR 0x22 \<notin> set s then CHR 0x22 else CHR 0x27)
      in [q] @ concat (map (repr_char q) s) @ [q])"

fun py_repr :: "pyval \<Rightarrow> string" where
  "py_repr PyNone = ''None''"
| "py_repr (PyBool b) = (if b then ''True'' else ''False'')"
| "py_repr (PyInt i) = (if i < 0 then ''-'' @ dec_nat (nat (- i)) else dec_nat (nat i))"
| "py_repr (PyStr s) = repr_str s"
| "py_repr (PyList xs) = ''['' @ join '', '' (map py_repr xs) @ '']''"
| "py_repr (PyDict kvs) =
     ''{'' @ join '', '' (map (\<lambda>(k, v). repr_str k @ '': '' @ py_repr v) kvs) @ ''}''"

definition py_str :: "pydict \<Rightarrow> string" where
  "py_str d = py_repr (PyDict d)"

section \<open>The adapter's collaborators\<close>

text \<open>
  \<open>VertexAIPassthroughConfig\<close> inherits from \<open>VertexBase\<close> and
  \<open>BasePassthroughConfig\<close>, whose methods it calls on \<open>self\<close>. They are the
  parameters of the model: project, location and credential lookup in the configuration
  dictionary, host resolution, URL formatting (to a value of the URL type \<open>'u\<close>) and
  the credential resolver, which either fails or yields an access token and the
  effective project id.
\<close>

datatype error = Exception string

record 'u vertex_base =
  get_vertex_ai_project :: "pydict \<Rightarrow> string option"
  get_vertex_ai_location :: "pydict \<Rightarrow> string option"
  get_vertex_ai_credentials :: "pydict \<Rightarrow> pyval option"
  get_api_base :: "string option \<Rightarrow> string \<Rightarrow> string option"
  format_url :: "string \<Rightarrow> string \<Rightarrow> pydict option \<Rightarrow> 'u"
  ensure_access_token :: "pyval option \<Rightarrow> string option \<Rightarrow> string \<Rightarrow> error + string \<times> string"

section \<open>\<open>VertexAIPassthroughConfig\<close>\<close>

subsection \<open>\<open>is_streaming_request\<close>\<close>

definition is_streaming_request :: "string \<Rightarrow> pydict \<Rightarrow> bool" where
  "is_streaming_request endpoint request_data =
     (if list_ex (\<lambda>keyword. contains keyword (lower endpoint)) [''stream'', ''live'', ''realtime'']
      then True
      else if truthy (dict_get request_data ''stream'' (PyBool False))
      then True
      else if list_ex (\<lambda>keyword. dict_has request_data keyword) [''realtime'', ''live'']
      then True
      else False)"

subsection \<open>\<open>get_complete_url\<close>\<close>

definition live_endpoint :: "string \<Rightarrow> string \<Rightarrow> string \<Rightarrow> string" where
  "live_endpoint vertex_project vertex_location model =
     ''v1beta1/projects/'' @ vertex_project @ ''/locations/'' @ vertex_location @
     ''/publishers/google/models/'' @ model @ '':streamRawPredict''"

definition get_complete_url ::
  "'u vertex_base \<Rightarrow> string option \<Rightarrow> string option \<Rightarrow> string \<Rightarrow> string \<Rightarrow>
   pydict option \<Rightarrow> pydict \<Rightarrow> error + 'u \<times> string" where
  "get_complete_url self api_base api_key model endpoint request_query_params litellm_params =
     (let vertex_project = get_vertex_ai_project self litellm_params;
          vertex_location =
            (case get_vertex_ai_location self litellm_params of
               None \<Rightarrow> ''global''
             | Some l \<Rightarrow> l)
      in case get_api_base self api_base vertex_location of
           None \<Rightarrow> Inl (Exception ''Vertex AI api base not found'')
         | Some base_target_url \<Rightarrow>
             if contains ''live'' (lower endpoint) \<or> contains ''realtime'' (lower endpoint) then
               (case vertex_project of
                  None \<Rightarrow> Inl (Exception ''Vertex AI project ID is required for Live API'')
                | Some project \<Rightarrow>
                    let endpoint1 =
                          (if \<not> startswith endpoint ''/'' then ''/'' @ endpoint else endpoint);
                        endpoint2 =
                          (if \<not> startswith endpoint1 ''/v1beta1''
                           then ''/'' @ live_endpoint project vertex_location model
                           else endpoint1)
                    in Inr (format_url self endpoint2 base_target_url request_query_params,
                            base_target_url))
             else
               (let endpoint1 =
                      (if \<not> startswith endpoint ''/'' then ''/'' @ endpoint else endpoint)
                in Inr (format_url self endpoint1 base_target_url request_query_params,
                        base_target_url)))"

subsection \<open>\<open>validate_environment\<close>\<close>

text \<open>
  The headers dictionary is a Python object the caller holds a reference to, and
  \<open>headers.update\<close> writes to that object; the function returns the reference it was
  given. The store maps references to dictionaries, and the function takes the store and
  the reference and returns the new store and the returned reference. An exception of
  the credential resolver leaves before any write.
\<close>

type_synonym addr = nat
type_synonym headers = "(string \<times> string) list"
type_synonym store = "addr \<Rightarrow> headers"

definition validate_environment ::
  "'u vertex_base \<Rightarrow> store \<Rightarrow> addr \<Rightarrow> string \<Rightarrow> pyval list \<Rightarrow> pydict \<Rightarrow> pydict \<Rightarrow>
   string option \<Rightarrow> string \<Rightarrow> error + store \<times> addr" where
  "validate_environment self st headers model messages optional_params litellm_params
     api_key api_base =
     (let vertex_credentials = get_vertex_ai_credentials self litellm_params;
          vertex_project = get_vertex_ai_project self litellm_params
      in case ensure_access_token self vertex_credentials vertex_project ''vertex_ai'' of
           Inl e \<Rightarrow> Inl e
         | Inr (access_token, project_id) \<Rightarrow>
             let st1 = st(headers := dict_update (st headers)
                          [(''Authorization'', ''Bearer '' @ access_token),
                           (''Content-Type'', ''application/json'')]);
                 st2 = (if contains ''live'' (lower model) \<or>
                           contains ''realtime'' (lower (py_str optional_params))
                        then st1(headers := dict_update (st1 headers)
                               [(''X-Goog-User-Project'', project_id)])
                        else st1)
             in Inr (st2, headers))"

subsection \<open>\<open>get_api_key\<close>, \<open>get_models\<close>, \<open>get_base_model\<close>\<close>

definition get_api_key :: "string option \<Rightarrow> string option" where
  "get_api_key api_key = None"

definition get_models :: "string option \<Rightarrow> string option \<Rightarrow> string list" where
  "get_models api_key api_base =
     [''gemini-2.0-flash-live-preview'',
      ''gemini-live-2.5-flash'',
      ''gemini-live-2.5-flash-preview-native-audio'',
      ''gemini-2.0-flash-live-001'']"

definition get_base_model :: "string \<Rightarrow> string option" where
  "get_base_model model =
     (if contains ''live'' (lower model) \<or> contains ''realtime'' (lower model)
      then Some model
      else None)"

section \<open>Stand-ins for the collaborators\<close>

text \<open>
  A URL value that keeps what \<open>format_url\<close> received (the base host, the path and the
  query parameters), and collaborators as the test suite mocks them: a fixed project and
  location, a host derived from the location, and a credential resolver that returns
  the token \<open>mock_access_token\<close> for the project \<open>test-project-123\<close>. They give the
  concrete inputs on which the theorems below are evaluated.
\<close>

record url =
  url_base :: string
  url_path :: string
  url_query :: "pydict option"

definition mock_self :: "string option \<Rightarrow> string option \<Rightarrow> url vertex_base" where
  "mock_self project location =
     \<lparr>get_vertex_ai_project = (\<lambda>litellm_params. project),
      get_vertex_ai_location = (\<lambda>litellm_params. location),
      get_vertex_ai_credentials = (\<lambda>litellm_params. None),
      get_api_base = (\<lambda>api_base vertex_location.
        Some (''https://'' @ vertex_location @ ''-aiplatform.googleapis.com'')),
      format_url = (\<lambda>endpoint base_target_url request_query_params.
        \<lparr>url_base = base_target_url, url_path = endpoint, url_query = request_query_params\<rparr>),
      ensure_access_token = (\<lambda>credentials project_id custom_llm_provider.
        Inr (''mock_access_token'', ''test-project-123''))\<rparr>"

text \<open>A store in which every reference holds the empty dictionary.\<close>

definition empty_store :: store where
  "empty_store = (\<lambda>a. [])"

section \<open>Facts about strings and dictionaries\<close>

lemma contains_sublist: "contains kw s = sublist kw s"
  by (induction s) (auto simp: sublist_Cons_right)

lemma contains_middle: "contains kw (pre @ kw @ post)"
  by (simp add: contains_sublist)

lemma dict_has_map_of: "dict_has d k = (map_of d k \<noteq> None)"
  by (simp add: dict_has_def map_of_eq_None_iff)

lemma map_of_dict_update1: "map_of (dict_update d [(k, v)]) = (map_of d)(k \<mapsto> v)"
  by (simp add: dict_update_def update_conv')

lemma map_of_dict_update2:
  "map_of (dict_update d [(k1, v1), (k2, v2)]) = (map_of d)(k1 \<mapsto> v1, k2 \<mapsto> v2)"
  by (simp add: dict_update_def update_conv')

lemma py_str_empty: "py_str [] = ''{}''"
  by (simp add: py_str_def)

section \<open>The two outcomes of \<open>validate_environment\<close>\<close>

lemma validate_environment_failure:
  assumes "ensure_access_token self (get_vertex_ai_credentials self litellm_params)
             (get_vertex_ai_project self litellm_params) ''vertex_ai'' = Inl e"
  shows "validate_environment self st headers model messages optional_params litellm_params
           api_key api_base = Inl e"
  using assms by (simp add: validate_environment_def)

lemma validate_environment_success:
  assumes "ensure_access_token self (get_vertex_ai_credentials self litellm_params)
             (get_vertex_ai_project self litellm_params) ''vertex_ai'' =
           Inr (access_token, project_id)"
  shows "validate_environment self st headers model messages optional_params litellm_params
           api_key api_base =
         Inr (st(headers :=
                (if contains ''live'' (lower model) \<or>
                    contains ''realtime'' (lower (py_str optional_params))
                 then dict_update
                        (dict_update (st headers)
                           [(''Authorization'', ''Bearer '' @ access_token),
                            (''Content-Type'', ''application/json'')])
                        [(''X-Goog-User-Project'', project_id)]
                 else dict_update (st headers)
                        [(''Authorization'', ''Bearer '' @ access_token),
                         (''Content-Type'', ''application/json'')])), headers)"
  using assms by (simp add: validate_environment_def Let_def)

lemma mock_self_simps:
  "get_vertex_ai_project (mock_self project location) litellm_params = project"
  "get_vertex_ai_location (mock_self project location) litellm_params = location"
  "get_vertex_ai_credentials (mock_self project location) litellm_params = None"
  "get_api_base (mock_self project location) api_base vertex_location =
     Some (''https://'' @ vertex_location @ ''-aiplatform.googleapis.com'')"
  "format_url (mock_self project location) endpoint base_target_url request_query_params =
     \<lparr>url_base = base_target_url, url_path = endpoint, url_query = request_query_params\<rparr>"
  "ensure_access_token (mock_self project location) credentials project_id custom_llm_provider =
     Inr (''mock_access_token'', ''test-project-123'')"
  by (simp_all add: mock_self_def)

section \<open>Streaming classification\<close>

text \<open>
  C5. An endpoint whose lowercase form contains \<open>stream\<close>, \<open>live\<close> or \<open>realtime\<close> is
  classified as streaming, whatever the request data are.
\<close>

theorem is_streaming_request_endpoint:
  assumes "contains ''stream'' (lower endpoint) \<or> contains ''live'' (lower endpoint) \<or>
           contains ''realtime'' (lower endpoint)"
  shows "is_streaming_request endpoint request_data = True"
  using assms by (auto simp: is_streaming_request_def)

theorem is_streaming_request_endpoint_witness:
  "contains ''realtime'' (lower ''v1/RealTime/connect'') \<and>
   is_streaming_request ''v1/RealTime/connect'' [(''stream'', PyBool False)] = True"
proof -
  have h: "contains ''realtime'' (lower ''v1/RealTime/connect'')"
    by (simp add: lower_def lower_char_def)
  then have "contains ''stream'' (lower ''v1/RealTime/connect'') \<or>
             contains ''live'' (lower ''v1/RealTime/connect'') \<or>
             contains ''realtime'' (lower ''v1/RealTime/connect'')"
    by blast
  from is_streaming_request_endpoint [OF this] h show ?thesis
    by blast
qed

text \<open>
  C6. Request data that hold the key \<open>stream\<close> with a truthy value, or hold the key
  \<open>live\<close> or the key \<open>realtime\<close> with any value at all, are classified as streaming,
  whatever the endpoint is.
\<close>

theorem is_streaming_request_params:
  assumes "(\<exists>v. map_of request_data ''stream'' = Some v \<and> truthy v) \<or>
           dict_has request_data ''live'' \<or> dict_has request_data ''realtime''"
  shows "is_streaming_request endpoint request_data = True"
  using assms by (auto simp: is_streaming_request_def dict_get_def)

theorem is_streaming_request_params_witness:
  "dict_has [(''model'', PyStr ''gemini-pro''), (''live'', PyBool False)] ''live'' \<and>
   is_streaming_request ''predict'' [(''model'', PyStr ''gemini-pro''), (''live'', PyBool False)] = True \<and>
   is_streaming_request ''predict'' [(''realtime'', PyStr [])] = True \<and>
   is_streaming_request ''predict'' [(''stream'', PyInt 1)] = True"
proof -
  have h: "dict_has [(''model'', PyStr ''gemini-pro''), (''live'', PyBool False)] ''live''"
    by (simp add: dict_has_def)
  have r: "dict_has [(''realtime'', PyStr [])] ''realtime''"
    by (simp add: dict_has_def)
  have s: "\<exists>v. map_of [(''stream'', PyInt 1)] ''stream'' = Some v \<and> truthy v"
    by simp
  show ?thesis
    using h is_streaming_request_params [of _ "''predict''", OF disjI2, OF disjI1, OF h]
      is_streaming_request_params [of _ "''predict''", OF disjI2, OF disjI2, OF r]
      is_streaming_request_params [of _ "''predict''", OF disjI1, OF s]
    by blast
qed

text \<open>
  C10. The key test is an exact comparison: when the endpoint contains none of the
  three words, the keys \<open>live\<close> and \<open>realtime\<close> themselves are absent and the
  \<open>stream\<close> entry is absent or falsy, the request is classified as not streaming, so
  keys that differ from \<open>live\<close> and \<open>realtime\<close> in case only (\<open>Live\<close>, \<open>REALTIME\<close>, as in
  the witness) do not count, although the endpoint test ignores case.
\<close>

theorem is_streaming_request_keys_case_sensitive:
  assumes "\<not> contains ''stream'' (lower endpoint)"
    and "\<not> contains ''live'' (lower endpoint)"
    and "\<not> contains ''realtime'' (lower endpoint)"
    and "\<not> dict_has request_data ''live''"
    and "\<not> dict_has request_data ''realtime''"
    and "\<not> truthy (dict_get request_data ''stream'' (PyBool False))"
  shows "is_streaming_request endpoint request_data = False"
  using assms by (simp add: is_streaming_request_def)

theorem is_streaming_request_keys_case_sensitive_witness:
  "dict_has [(''Live'', PyBool True), (''REALTIME'', PyBool True), (''stream'', PyBool False)] ''Live'' \<and>
   dict_has [(''Live'', PyBool True), (''REALTIME'', PyBool True), (''stream'', PyBool False)] ''REALTIME'' \<and>
   is_streaming_request ''predict''
     [(''Live'', PyBool True), (''REALTIME'', PyBool True), (''stream'', PyBool False)] = False \<and>
   is_streaming_request ''Live''
     [(''Live'', PyBool True), (''REALTIME'', PyBool True), (''stream'', PyBool False)] = True"
proof -
  let ?d = "[(''Live'', PyBool True), (''REALTIME'', PyBool True), (''stream'', PyBool False)]"
  have e: "\<not> contains ''stream'' (lower ''predict'')" "\<not> contains ''live'' (lower ''predict'')"
    "\<not> contains ''realtime'' (lower ''predict'')"
    by (simp_all add: lower_def lower_char_def)
  have k: "\<not> dict_has ?d ''live''" "\<not> dict_has ?d ''realtime''"
    "\<not> truthy (dict_get ?d ''stream'' (PyBool False))"
    by (simp_all add: dict_has_def dict_get_def)
  have p: "dict_has ?d ''Live''" "dict_has ?d ''REALTIME''"
    by (simp_all add: dict_has_def)
  have t: "is_streaming_request ''Live'' ?d = True"
    by (simp add: is_streaming_request_def lower_def lower_char_def)
  from is_streaming_request_keys_case_sensitive [OF e k] p t show ?thesis
    by blast
qed

section \<open>URL resolution\<close>

text \<open>
  C2, as amended. For an endpoint whose lowercase form contains \<open>live\<close> or \<open>realtime\<close>
  and which, once prefixed with \<open>/\<close>, does not start with \<open>/v1beta1\<close>, with a project id
  present and a resolved base host, \<open>get_complete_url\<close> drops the caller's endpoint:
  the path it formats is \<open>/v1beta1/projects/{project}/locations/{region}/publishers/google/models/{model}:streamRawPredict\<close>
  with the model inserted as it is, where the region is the configured location or
  \<open>global\<close>. The path ends with \<open>:streamRawPredict\<close> and contains the template up to the
  model name. (An endpoint that already starts with \<open>/v1beta1\<close> is kept: see C8.)
\<close>

theorem get_complete_url_live_template:
  assumes "contains ''live'' (lower endpoint) \<or> contains ''realtime'' (lower endpoint)"
    and "\<not> startswith (if startswith endpoint ''/'' then endpoint else ''/'' @ endpoint) ''/v1beta1''"
    and "get_vertex_ai_project self litellm_params = Some project"
    and "region = (case get_vertex_ai_location self litellm_params of
                     None \<Rightarrow> ''global'' | Some l \<Rightarrow> l)"
    and "get_api_base self api_base region = Some base"
    and "path = ''/v1beta1/projects/'' @ project @ ''/locations/'' @ region @
                ''/publishers/google/models/'' @ model @ '':streamRawPredict''"
  shows "get_complete_url self api_base api_key model endpoint request_query_params litellm_params =
           Inr (format_url self path base request_query_params, base) \<and>
         suffix '':streamRawPredict'' path \<and>
         contains (''v1beta1/projects/'' @ project @ ''/locations/'' @ region @
                   ''/publishers/google/models/'' @ model) path"
proof -
  have "get_complete_url self api_base api_key model endpoint request_query_params litellm_params =
          Inr (format_url self path base request_query_params, base)"
    using assms by (auto simp: get_complete_url_def live_endpoint_def Let_def split: option.splits)
  moreover have "suffix '':streamRawPredict'' path"
    unfolding assms(6) suffix_def by simp
  moreover have "contains (''v1beta1/projects/'' @ project @ ''/locations/'' @ region @
                   ''/publishers/google/models/'' @ model) path"
    using contains_middle [of "''v1beta1/projects/'' @ project @ ''/locations/'' @ region @
                   ''/publishers/google/models/'' @ model" "''/''" "'':streamRawPredict''"]
    unfolding assms(6) by simp
  ultimately show ?thesis by blast
qed

theorem get_complete_url_live_template_witness:
  "contains ''live'' (lower ''live/stream'') \<and>
   get_complete_url (mock_self (Some ''p1'') (Some ''us-central1'')) None None
     ''gemini-2.0-flash-live-preview'' ''live/stream'' None [] =
   Inr (\<lparr>url_base = ''https://us-central1-aiplatform.googleapis.com'',
         url_path = ''/v1beta1/projects/p1/locations/us-central1/publishers/google/models/gemini-2.0-flash-live-preview:streamRawPredict'',
         url_query = None\<rparr>,
        ''https://us-central1-aiplatform.googleapis.com'')"
proof -
  let ?self = "mock_self (Some ''p1'') (Some ''us-central1'')"
  have e: "contains ''live'' (lower ''live/stream'')"
    by (simp add: lower_def lower_char_def)
  have v: "\<not> startswith (if startswith ''live/stream'' ''/'' then ''live/stream''
                           else ''/'' @ ''live/stream'') ''/v1beta1''"
    by (simp add: startswith_def)
  have p: "get_vertex_ai_project ?self [] = Some ''p1''"
    by (simp add: mock_self_simps)
  have r: "''us-central1'' = (case get_vertex_ai_location ?self [] of
                                None \<Rightarrow> ''global'' | Some l \<Rightarrow> l)"
    by (simp add: mock_self_simps)
  have b: "get_api_base ?self None ''us-central1'' =
           Some ''https://us-central1-aiplatform.googleapis.com''"
    by (simp add: mock_self_simps)
  have "get_complete_url ?self None None ''gemini-2.0-flash-live-preview'' ''live/stream'' None [] =
        Inr (format_url ?self
               (''/v1beta1/projects/'' @ ''p1'' @ ''/locations/'' @ ''us-central1'' @
                ''/publishers/google/models/'' @ ''gemini-2.0-flash-live-preview'' @
                '':streamRawPredict'')
               ''https://us-central1-aiplatform.googleapis.com'' None,
             ''https://us-central1-aiplatform.googleapis.com'')"
    using get_complete_url_live_template [OF disjI1, OF e v p r b refl] by blast
  with e show ?thesis by (simp add: mock_self_simps)
qed

text \<open>
  The claim as the specification words it fails on an endpoint that already starts with
  \<open>v1beta1\<close>: the project id is present and the endpoint contains \<open>live\<close>, yet the
  caller's endpoint is what is formatted; the path neither ends with
  \<open>:streamRawPredict\<close> nor contains the model name.
\<close>

theorem get_complete_url_live_template_counterexample:
  "contains ''live'' (lower ''v1beta1/live/connect'') \<and>
   get_vertex_ai_project (mock_self (Some ''p1'') (Some ''us-central1'')) [] = Some ''p1'' \<and>
   get_complete_url (mock_self (Some ''p1'') (Some ''us-central1'')) None None
     ''gemini-2.0-flash-live-preview'' ''v1beta1/live/connect'' None [] =
   Inr (\<lparr>url_base = ''https://us-central1-aiplatform.googleapis.com'',
         url_path = ''/v1beta1/live/connect'',
         url_query = None\<rparr>,
        ''https://us-central1-aiplatform.googleapis.com'') \<and>
   \<not> suffix '':streamRawPredict'' ''/v1beta1/live/connect'' \<and>
   \<not> contains ''gemini-2.0-flash-live-preview'' ''/v1beta1/live/connect''"
  by (simp add: get_complete_url_def mock_self_def lower_def lower_char_def startswith_def
      suffix_def Let_def)

text \<open>
  C4. When the lowercase endpoint contains \<open>live\<close> or \<open>realtime\<close> and the project id is
  absent, \<open>get_complete_url\<close> raises and returns no URL: the exception is
  \<open>Vertex AI project ID is required for Live API\<close>, unless host resolution has already
  failed, in which case it is \<open>Vertex AI api base not found\<close>. Both are configuration
  errors of the specification's taxonomy.
\<close>

theorem get_complete_url_missing_project:
  assumes "contains ''live'' (lower endpoint) \<or> contains ''realtime'' (lower endpoint)"
    and "get_vertex_ai_project self litellm_params = None"
  shows "get_complete_url self api_base api_key model endpoint request_query_params litellm_params =
           (if get_api_base self api_base
                 (case get_vertex_ai_location self litellm_params of
                    None \<Rightarrow> ''global'' | Some l \<Rightarrow> l) = None
            then Inl (Exception ''Vertex AI api base not found'')
            else Inl (Exception ''Vertex AI project ID is required for Live API''))"
  using assms by (auto simp: get_complete_url_def Let_def split: option.splits)

theorem get_complete_url_missing_project_witness:
  "contains ''live'' (lower ''live/stream'') \<and>
   get_complete_url (mock_self None (Some ''us-central1'')) None None
     ''gemini-2.0-flash-live-preview'' ''live/stream'' None [] =
   Inl (Exception ''Vertex AI project ID is required for Live API'')"
proof -
  have h: "contains ''live'' (lower ''live/stream'')"
    by (simp add: lower_def lower_char_def)
  have p: "get_vertex_ai_project (mock_self None (Some ''us-central1'')) [] = None"
    by (simp add: mock_self_simps)
  have b: "get_api_base (mock_self None (Some ''us-central1'')) None
             (case get_vertex_ai_location (mock_self None (Some ''us-central1'')) [] of
                None \<Rightarrow> ''global'' | Some l \<Rightarrow> l) \<noteq> None"
    by (simp add: mock_self_simps)
  from get_complete_url_missing_project [OF disjI1, OF h p,
      of None None "''gemini-2.0-flash-live-preview''" None] b h
  show ?thesis by simp
qed

text \<open>
  C7. When the configuration gives no location, \<open>get_complete_url\<close> behaves exactly as
  with the location \<open>global\<close>: host resolution is asked for the region \<open>global\<close> (the
  call fails with \<open>Vertex AI api base not found\<close> exactly when \<open>get_api_base\<close> has no
  host for \<open>global\<close>), and the real-time template is built with \<open>locations/global\<close>.
\<close>

theorem get_complete_url_default_region:
  assumes "get_vertex_ai_location self litellm_params = None"
  shows "get_complete_url self api_base api_key model endpoint request_query_params litellm_params =
           get_complete_url (self\<lparr>get_vertex_ai_location := (\<lambda>p. Some ''global'')\<rparr>)
             api_base api_key model endpoint request_query_params litellm_params \<and>
         ((get_api_base self api_base ''global'' = None) =
          (get_complete_url self api_base api_key model endpoint request_query_params litellm_params =
           Inl (Exception ''Vertex AI api base not found''))) \<and>
         (get_api_base self api_base ''global'' = Some base \<and>
          get_vertex_ai_project self litellm_params = Some project \<and>
          (contains ''live'' (lower endpoint) \<or> contains ''realtime'' (lower endpoint)) \<and>
          \<not> startswith (if startswith endpoint ''/'' then endpoint else ''/'' @ endpoint) ''/v1beta1'' \<longrightarrow>
          get_complete_url self api_base api_key model endpoint request_query_params litellm_params =
          Inr (format_url self
                 (''/v1beta1/projects/'' @ project @ ''/locations/global/publishers/google/models/'' @
                  model @ '':streamRawPredict'')
                 base request_query_params, base))"
  using assms by (auto simp: get_complete_url_def live_endpoint_def Let_def split: option.splits)

theorem get_complete_url_default_region_witness:
  "get_vertex_ai_location (mock_self (Some ''test-project'') None) [] = None \<and>
   get_api_base (mock_self (Some ''test-project'') None) None ''global'' =
     Some ''https://global-aiplatform.googleapis.com'' \<and>
   get_complete_url (mock_self (Some ''test-project'') None) None None
     ''gemini-2.0-flash-live-preview'' ''live/stream'' None [] =
   Inr (\<lparr>url_base = ''https://global-aiplatform.googleapis.com'',
         url_path = ''/v1beta1/projects/test-project/locations/global/publishers/google/models/gemini-2.0-flash-live-preview:streamRawPredict'',
         url_query = None\<rparr>,
        ''https://global-aiplatform.googleapis.com'')"
proof -
  let ?self = "mock_self (Some ''test-project'') None"
  have l: "get_vertex_ai_location ?self [] = None"
    by (simp add: mock_self_simps)
  have b: "get_api_base ?self None ''global'' = Some ''https://global-aiplatform.googleapis.com''"
    by (simp add: mock_self_simps)
  have p: "get_vertex_ai_project ?self [] = Some ''test-project''"
    by (simp add: mock_self_simps)
  have e: "contains ''live'' (lower ''live/stream'') \<or> contains ''realtime'' (lower ''live/stream'')"
    by (simp add: lower_def lower_char_def)
  have v: "\<not> startswith (if startswith ''live/stream'' ''/'' then ''live/stream''
                           else ''/'' @ ''live/stream'') ''/v1beta1''"
    by (simp add: startswith_def)
  have "get_complete_url ?self None None ''gemini-2.0-flash-live-preview'' ''live/stream'' None [] =
        Inr (format_url ?self
               (''/v1beta1/projects/'' @ ''test-project'' @
                ''/locations/global/publishers/google/models/'' @
                ''gemini-2.0-flash-live-preview'' @ '':streamRawPredict'')
               ''https://global-aiplatform.googleapis.com'' None,
             ''https://global-aiplatform.googleapis.com'')"
    using get_complete_url_default_region [OF l, of None None "''gemini-2.0-flash-live-preview''"
        "''live/stream''" None "''https://global-aiplatform.googleapis.com''" "''test-project''"]
      b p e v
    by blast
  with l b show ?thesis by (simp add: mock_self_simps)
qed

text \<open>
  C8. When the lowercase endpoint contains \<open>live\<close> or \<open>realtime\<close> and the endpoint,
  once prefixed with \<open>/\<close>, starts with \<open>/v1beta1\<close>, then with a project id present and
  a resolved base host \<open>get_complete_url\<close> formats the caller's endpoint (with its
  leading \<open>/\<close>) and does not substitute the \<open>:streamRawPredict\<close> template.
\<close>

theorem get_complete_url_keeps_v1beta1_endpoint:
  assumes "contains ''live'' (lower endpoint) \<or> contains ''realtime'' (lower endpoint)"
    and "startswith (if startswith endpoint ''/'' then endpoint else ''/'' @ endpoint) ''/v1beta1''"
    and "get_vertex_ai_project self litellm_params = Some project"
    and "get_api_base self api_base
           (case get_vertex_ai_location self litellm_params of
              None \<Rightarrow> ''global'' | Some l \<Rightarrow> l) = Some base"
  shows "get_complete_url self api_base api_key model endpoint request_query_params litellm_params =
         Inr (format_url self (if startswith endpoint ''/'' then endpoint else ''/'' @ endpoint)
                base request_query_params, base)"
  using assms by (auto simp: get_complete_url_def Let_def split: option.splits)

theorem get_complete_url_keeps_v1beta1_endpoint_witness:
  "contains ''realtime'' (lower ''/v1beta1/projects/p1/realtime:connect'') \<and>
   get_complete_url (mock_self (Some ''p1'') None) None None
     ''gemini-2.0-flash-live-preview'' ''/v1beta1/projects/p1/realtime:connect'' None [] =
   Inr (\<lparr>url_base = ''https://global-aiplatform.googleapis.com'',
         url_path = ''/v1beta1/projects/p1/realtime:connect'',
         url_query = None\<rparr>,
        ''https://global-aiplatform.googleapis.com'')"
proof -
  let ?self = "mock_self (Some ''p1'') None"
  let ?e = "''/v1beta1/projects/p1/realtime:connect''"
  have e: "contains ''realtime'' (lower ?e)"
    by (simp add: lower_def lower_char_def)
  have v: "startswith (if startswith ?e ''/'' then ?e else ''/'' @ ?e) ''/v1beta1''"
    by (simp add: startswith_def)
  have p: "get_vertex_ai_project ?self [] = Some ''p1''"
    by (simp add: mock_self_simps)
  have b: "get_api_base ?self None
             (case get_vertex_ai_location ?self [] of None \<Rightarrow> ''global'' | Some l \<Rightarrow> l) =
           Some ''https://global-aiplatform.googleapis.com''"
    by (simp add: mock_self_simps)
  from get_complete_url_keeps_v1beta1_endpoint [OF disjI2, OF e v p b,
      of None "''gemini-2.0-flash-live-preview''" None] e
  show ?thesis by (simp add: startswith_def mock_self_simps)
qed

section \<open>Authentication headers\<close>

text \<open>
  C1, as amended. When the credential resolver succeeds with an access token and a
  project id, \<open>validate_environment\<close> returns the header mapping with
  \<open>Authorization\<close> set to \<open>Bearer {access_token}\<close> and \<open>Content-Type\<close> set to
  \<open>application/json\<close>. If the lowercase model name contains \<open>live\<close>, or the lowercase
  \<open>str(optional_params)\<close> contains \<open>realtime\<close>, \<open>X-Goog-User-Project\<close> is set to the
  project id. If neither the lowercase model name nor the lowercase
  \<open>str(optional_params)\<close> contains \<open>live\<close> or \<open>realtime\<close>, the key
  \<open>X-Goog-User-Project\<close> is in the result exactly when it was in the headers passed in,
  with the value it had there.
\<close>

theorem validate_environment_headers:
  assumes "ensure_access_token self (get_vertex_ai_credentials self litellm_params)
             (get_vertex_ai_project self litellm_params) ''vertex_ai'' =
           Inr (access_token, project_id)"
  shows "\<exists>st'. validate_environment self st headers model messages optional_params litellm_params
                 api_key api_base = Inr (st', headers) \<and>
           map_of (st' headers) ''Authorization'' = Some (''Bearer '' @ access_token) \<and>
           map_of (st' headers) ''Content-Type'' = Some ''application/json'' \<and>
           (contains ''live'' (lower model) \<or>
            contains ''realtime'' (lower (py_str optional_params)) \<longrightarrow>
              map_of (st' headers) ''X-Goog-User-Project'' = Some project_id) \<and>
           (\<not> contains ''live'' (lower model) \<and> \<not> contains ''realtime'' (lower model) \<and>
            \<not> contains ''live'' (lower (py_str optional_params)) \<and>
            \<not> contains ''realtime'' (lower (py_str optional_params)) \<longrightarrow>
              dict_has (st' headers) ''X-Goog-User-Project'' =
              dict_has (st headers) ''X-Goog-User-Project'' \<and>
              map_of (st' headers) ''X-Goog-User-Project'' =
              map_of (st headers) ''X-Goog-User-Project'')"
  unfolding validate_environment_success [OF assms]
  by (simp add: dict_has_map_of map_of_dict_update1 map_of_dict_update2)

theorem validate_environment_headers_witness:
  "ensure_access_token (mock_self None None) (get_vertex_ai_credentials (mock_self None None) [])
     (get_vertex_ai_project (mock_self None None) []) ''vertex_ai'' =
     Inr (''mock_access_token'', ''test-project-123'') \<and>
   contains ''live'' (lower ''gemini-2.0-flash-live-preview'') \<and>
   (\<exists>st'. validate_environment (mock_self None None) empty_store 0
            ''gemini-2.0-flash-live-preview'' [] [(''realtime'', PyBool True)] [] None [] =
            Inr (st', 0) \<and>
      map_of (st' 0) ''Authorization'' = Some ''Bearer mock_access_token'' \<and>
      map_of (st' 0) ''Content-Type'' = Some ''application/json'' \<and>
      map_of (st' 0) ''X-Goog-User-Project'' = Some ''test-project-123'') \<and>
   (\<exists>st'. validate_environment (mock_self None None) empty_store 0
            ''gemini-pro'' [] [] [] None [] = Inr (st', 0) \<and>
      map_of (st' 0) ''Authorization'' = Some ''Bearer mock_access_token'' \<and>
      map_of (st' 0) ''Content-Type'' = Some ''application/json'' \<and>
      dict_has (st' 0) ''X-Goog-User-Project'' = False)"
proof -
  let ?self = "mock_self None None :: url vertex_base"
  have ok: "ensure_access_token ?self (get_vertex_ai_credentials ?self [])
              (get_vertex_ai_project ?self []) ''vertex_ai'' =
            Inr (''mock_access_token'', ''test-project-123'')"
    by (simp add: mock_self_simps)
  have live: "contains ''live'' (lower ''gemini-2.0-flash-live-preview'')"
    by (simp add: lower_def lower_char_def)
  have none: "\<not> contains ''live'' (lower ''gemini-pro'')"
    "\<not> contains ''realtime'' (lower ''gemini-pro'')"
    "\<not> contains ''live'' (lower (py_str []))"
    "\<not> contains ''realtime'' (lower (py_str []))"
    by (simp_all add: py_str_empty lower_def lower_char_def)
  have absent: "dict_has (empty_store 0) ''X-Goog-User-Project'' = False"
    by (simp add: empty_store_def dict_has_def)
  have "\<exists>st'. validate_environment ?self empty_store 0
            ''gemini-2.0-flash-live-preview'' [] [(''realtime'', PyBool True)] [] None [] =
            Inr (st', 0) \<and>
      map_of (st' 0) ''Authorization'' = Some ''Bearer mock_access_token'' \<and>
      map_of (st' 0) ''Content-Type'' = Some ''application/json'' \<and>
      map_of (st' 0) ''X-Goog-User-Project'' = Some ''test-project-123''"
    using validate_environment_headers [OF ok, of empty_store 0
        "''gemini-2.0-flash-live-preview''" "[]" "[(''realtime'', PyBool True)]" None "[]"] live
    by auto
  moreover have "\<exists>st'. validate_environment ?self empty_store 0
            ''gemini-pro'' [] [] [] None [] = Inr (st', 0) \<and>
      map_of (st' 0) ''Authorization'' = Some ''Bearer mock_access_token'' \<and>
      map_of (st' 0) ''Content-Type'' = Some ''application/json'' \<and>
      dict_has (st' 0) ''X-Goog-User-Project'' = False"
    using validate_environment_headers [OF ok, of empty_store 0 "''gemini-pro''" "[]" "[]" None "[]"]
      none absent
    by auto
  ultimately show ?thesis using ok live by blast
qed

text \<open>
  The claim as the specification words it fails when the caller's headers already hold
  \<open>X-Goog-User-Project\<close>: neither the model name nor \<open>str(optional_params)\<close> contains
  \<open>live\<close> or \<open>realtime\<close>, and the returned mapping still has the key.
\<close>

theorem validate_environment_headers_counterexample:
  "\<not> contains ''live'' (lower ''gemini-pro'') \<and>
   \<not> contains ''realtime'' (lower ''gemini-pro'') \<and>
   \<not> contains ''live'' (lower (py_str [])) \<and>
   \<not> contains ''realtime'' (lower (py_str [])) \<and>
   validate_environment (mock_self None None)
     (empty_store(0 := [(''X-Goog-User-Project'', ''caller-project'')])) 0
     ''gemini-pro'' [] [] [] None [] =
   Inr (empty_store(0 := [(''X-Goog-User-Project'', ''caller-project''),
                          (''Authorization'', ''Bearer mock_access_token''),
                          (''Content-Type'', ''application/json'')]), 0) \<and>
   dict_has [(''X-Goog-User-Project'', ''caller-project''),
             (''Authorization'', ''Bearer mock_access_token''),
             (''Content-Type'', ''application/json'')] ''X-Goog-User-Project''"
  by (simp add: validate_environment_def mock_self_simps py_str_empty lower_def lower_char_def
      dict_update_def dict_has_def Let_def)

text \<open>
  C3, as amended. \<open>validate_environment\<close> writes into the caller's header mapping and
  returns that same mapping, not a copy. After a successful call the returned reference
  is the one passed in; the mapping behind it holds \<open>Authorization\<close> and
  \<open>Content-Type\<close>; its entries under every key other than \<open>Authorization\<close>,
  \<open>Content-Type\<close> and \<open>X-Goog-User-Project\<close> are as before; and no other object of the
  store is changed. When the credential resolver fails, the failure is returned and
  nothing is written.
\<close>

theorem validate_environment_in_place:
  "(ensure_access_token self (get_vertex_ai_credentials self litellm_params)
      (get_vertex_ai_project self litellm_params) ''vertex_ai'' = Inl e \<longrightarrow>
    validate_environment self st headers model messages optional_params litellm_params
      api_key api_base = Inl e) \<and>
   (ensure_access_token self (get_vertex_ai_credentials self litellm_params)
      (get_vertex_ai_project self litellm_params) ''vertex_ai'' = Inr (access_token, project_id) \<longrightarrow>
    (\<exists>st'. validate_environment self st headers model messages optional_params litellm_params
             api_key api_base = Inr (st', headers) \<and>
       (\<forall>a. a \<noteq> headers \<longrightarrow> st' a = st a) \<and>
       (\<forall>k. k \<noteq> ''Authorization'' \<and> k \<noteq> ''Content-Type'' \<and> k \<noteq> ''X-Goog-User-Project'' \<longrightarrow>
          map_of (st' headers) k = map_of (st headers) k) \<and>
       map_of (st' headers) ''Authorization'' = Some (''Bearer '' @ access_token) \<and>
       map_of (st' headers) ''Content-Type'' = Some ''application/json''))"
proof (intro conjI impI)
  assume "ensure_access_token self (get_vertex_ai_credentials self litellm_params)
      (get_vertex_ai_project self litellm_params) ''vertex_ai'' = Inl e"
  then show "validate_environment self st headers model messages optional_params litellm_params
      api_key api_base = Inl e"
    by (rule validate_environment_failure)
next
  assume ok: "ensure_access_token self (get_vertex_ai_credentials self litellm_params)
      (get_vertex_ai_project self litellm_params) ''vertex_ai'' = Inr (access_token, project_id)"
  show "\<exists>st'. validate_environment self st headers model messages optional_params litellm_params
             api_key api_base = Inr (st', headers) \<and>
       (\<forall>a. a \<noteq> headers \<longrightarrow> st' a = st a) \<and>
       (\<forall>k. k \<noteq> ''Authorization'' \<and> k \<noteq> ''Content-Type'' \<and> k \<noteq> ''X-Goog-User-Project'' \<longrightarrow>
          map_of (st' headers) k = map_of (st headers) k) \<and>
       map_of (st' headers) ''Authorization'' = Some (''Bearer '' @ access_token) \<and>
       map_of (st' headers) ''Content-Type'' = Some ''application/json''"
    unfolding validate_environment_success [OF ok]
    by (simp add: map_of_dict_update1 map_of_dict_update2)
qed

theorem validate_environment_in_place_witness:
  "validate_environment
     ((mock_self None None)\<lparr>ensure_access_token := (\<lambda>c p s. Inl (Exception ''invalid credentials''))\<rparr>)
     (empty_store(0 := [(''Accept'', ''text/plain'')], 1 := [(''Accept'', ''text/html'')])) 0
     ''gemini-pro'' [] [] [] None [] = Inl (Exception ''invalid credentials'') \<and>
   (\<exists>st'. validate_environment (mock_self None None)
            (empty_store(0 := [(''Accept'', ''text/plain'')], 1 := [(''Accept'', ''text/html'')])) 0
            ''gemini-pro'' [] [] [] None [] = Inr (st', 0) \<and>
      st' 1 = [(''Accept'', ''text/html'')] \<and>
      map_of (st' 0) ''Accept'' = Some ''text/plain'' \<and>
      map_of (st' 0) ''Authorization'' = Some ''Bearer mock_access_token'' \<and>
      map_of (st' 0) ''Content-Type'' = Some ''application/json'')"
proof -
  let ?ok = "mock_self None None :: url vertex_base"
  let ?bad = "?ok\<lparr>ensure_access_token := (\<lambda>c p s. Inl (Exception ''invalid credentials''))\<rparr>"
  let ?st = "empty_store(0 := [(''Accept'', ''text/plain'')], 1 := [(''Accept'', ''text/html'')])"
  have bad: "ensure_access_token ?bad (get_vertex_ai_credentials ?bad [])
               (get_vertex_ai_project ?bad []) ''vertex_ai'' = Inl (Exception ''invalid credentials'')"
    by simp
  have ok: "ensure_access_token ?ok (get_vertex_ai_credentials ?ok [])
              (get_vertex_ai_project ?ok []) ''vertex_ai'' =
            Inr (''mock_access_token'', ''test-project-123'')"
    by (simp add: mock_self_simps)
  have failure: "validate_environment ?bad ?st 0 ''gemini-pro'' [] [] [] None [] =
                 Inl (Exception ''invalid credentials'')"
    using validate_environment_in_place [of ?bad "[]" "Exception ''invalid credentials''" ?st 0
        "''gemini-pro''" "[]" "[]" None "[]"] bad
    by blast
  obtain st' where r: "validate_environment ?ok ?st 0 ''gemini-pro'' [] [] [] None [] = Inr (st', 0)"
    and others: "\<forall>a. a \<noteq> 0 \<longrightarrow> st' a = ?st a"
    and keys: "\<forall>k. k \<noteq> ''Authorization'' \<and> k \<noteq> ''Content-Type'' \<and> k \<noteq> ''X-Goog-User-Project'' \<longrightarrow>
                 map_of (st' 0) k = map_of (?st 0) k"
    and auth: "map_of (st' 0) ''Authorization'' = Some (''Bearer '' @ ''mock_access_token'')"
    and ctype: "map_of (st' 0) ''Content-Type'' = Some ''application/json''"
    using validate_environment_in_place [of ?ok "[]" _ ?st 0 "''gemini-pro''" "[]" "[]" None "[]"
        "''mock_access_token''" "''test-project-123''"] ok
    by blast
  have "st' 1 = [(''Accept'', ''text/html'')]"
    using others by simp
  moreover have "map_of (st' 0) ''Accept'' = Some ''text/plain''"
    using keys by simp
  ultimately show ?thesis
    using failure r auth ctype by simp
qed

text \<open>
  The claim as the specification words it fails on every successful call whose headers
  lack one of the two entries: the mapping the caller passed in, at reference 0, is
  empty before the call and holds both entries after it, and the reference returned is
  0 itself.
\<close>

theorem validate_environment_in_place_counterexample:
  "empty_store 0 = [] \<and>
   validate_environment (mock_self None None) empty_store 0 ''gemini-pro'' [] [] [] None [] =
   Inr (empty_store(0 := [(''Authorization'', ''Bearer mock_access_token''),
                          (''Content-Type'', ''application/json'')]), 0) \<and>
   (empty_store(0 := [(''Authorization'', ''Bearer mock_access_token''),
                      (''Content-Type'', ''application/json'')])) 0 \<noteq> empty_store 0"
  by (simp add: validate_environment_def mock_self_simps py_str_empty lower_def lower_char_def
      dict_update_def empty_store_def Let_def)

section \<open>The model catalogue\<close>

lemma catalogue_contains_live:
  "contains ''live'' (lower ''gemini-2.0-flash-live-preview'')"
  "contains ''live'' (lower ''gemini-live-2.5-flash'')"
  "contains ''live'' (lower ''gemini-live-2.5-flash-preview-native-audio'')"
  "contains ''live'' (lower ''gemini-2.0-flash-live-001'')"
  by code_simp+

text \<open>
  C9. Every model of the catalogue \<open>get_models\<close> contains \<open>live\<close>, so
  \<open>get_base_model\<close> returns it as it is.
\<close>

theorem get_base_model_get_models:
  "\<forall>m \<in> set (get_models api_key api_base).
     contains ''live'' (lower m) \<and> get_base_model m = Some m"
  by (simp add: get_models_def get_base_model_def catalogue_contains_live)

theorem get_base_model_get_models_witness:
  "''gemini-live-2.5-flash'' \<in> set (get_models None None) \<and>
   get_base_model ''gemini-live-2.5-flash'' = Some ''gemini-live-2.5-flash''"
proof -
  have m: "''gemini-live-2.5-flash'' \<in> set (get_models None None)"
    by (simp add: get_models_def)
  from bspec [OF get_base_model_get_models m] m show ?thesis
    by blast
qed

end
